theory Spec2Isabelle
  imports Complex_Main
begin

section \<open>Usability testing tool: record store, task timer, stage handlers, report\<close>

text \<open>
  The program (\<^verbatim>\<open>project1.py\<close>) is a Streamlit script. It keeps four CSV files, written
  with \<^verbatim>\<open>DataFrame.to_csv\<close> and read with \<^verbatim>\<open>pandas.read_csv\<close>, a timer held in
  \<^verbatim>\<open>st.session_state\<close>, and one handler per button or form. Pandas and Streamlit are
  libraries: what the program relies on of their behaviour with default arguments is
  written out below, function by function.

  Python values that occur in the records are booleans, integers, floats and strings.
  A Python float is modelled by the real number it denotes; rounding is not modelled.
  A string is a list of bytes.
\<close>

datatype pyval = PyBool bool | PyInt int | PyFloat real | PyStr string

text \<open>A dict literal: keys in insertion order, no key twice.\<close>

type_synonym data_dict = "(string \<times> pyval) list"

subsection \<open>Decimal text of integers\<close>

definition digit_char :: "nat \<Rightarrow> char" where
  "digit_char d = char_of (48 + d)"

function str_nat :: "nat \<Rightarrow> string" where
  "str_nat n = (if n < 10 then [digit_char n] else str_nat (n div 10) @ [digit_char (n mod 10)])"
  by pat_completeness auto
termination
  by (relation "measure id") auto

declare str_nat.simps [simp del]

text \<open>\<^verbatim>\<open>str(i)\<close> for a Python int.\<close>

definition str_int :: "int \<Rightarrow> string" where
  "str_int i = (if i < 0 then CHR ''-'' # str_nat (nat (- i)) else str_nat (nat i))"

subsection \<open>Character classes of the reader's C tokenizer\<close>

text \<open>\<^verbatim>\<open>isspace\<close>: the space and the control characters 9 to 13.\<close>

definition is_space :: "char \<Rightarrow> bool" where
  "is_space c \<longleftrightarrow> (of_char c :: nat) = 32 \<or> (9 \<le> (of_char c :: nat) \<and> (of_char c :: nat) \<le> 13)"

definition is_digit :: "char \<Rightarrow> bool" where
  "is_digit c \<longleftrightarrow> 48 \<le> (of_char c :: nat) \<and> (of_char c :: nat) \<le> 57"

definition digit_val :: "char \<Rightarrow> nat" where
  "digit_val c = of_char c - 48"

definition digits_val :: "string \<Rightarrow> nat" where
  "digits_val ds = foldl (\<lambda>a c. 10 * a + digit_val c) 0 ds"

definition to_upper :: "char \<Rightarrow> char" where
  "to_upper c = (if 97 \<le> (of_char c :: nat) \<and> (of_char c :: nat) \<le> 122
                 then char_of ((of_char c :: nat) - 32) else c)"

text \<open>\<^verbatim>\<open>strcasecmp(a, b) == 0\<close>.\<close>

definition strcaseeq :: "string \<Rightarrow> string \<Rightarrow> bool" where
  "strcaseeq a b \<longleftrightarrow> map to_upper a = map to_upper b"

subsection \<open>Converting one cell text: missing-value markers, integers, floats, booleans\<close>

text \<open>
  \<^verbatim>\<open>read_csv\<close> is called with default arguments, so the default set of missing-value
  markers applies (\<^verbatim>\<open>STR_NA_VALUES\<close>); the empty text is one of them.
\<close>

definition STR_NA_VALUES :: "string list" where
  "STR_NA_VALUES = ['''', ''#N/A'', ''#N/A N/A'', ''#NA'', ''-1.#IND'', ''-1.#QNAN'',
     ''-NaN'', ''-nan'', ''1.#IND'', ''1.#QNAN'', ''<NA>'', ''N/A'', ''NA'', ''NULL'',
     ''NaN'', ''None'', ''n/a'', ''nan'', ''null'']"

definition is_na :: "string \<Rightarrow> bool" where
  "is_na w \<longleftrightarrow> w \<in> set STR_NA_VALUES"

text \<open>The outcome of converting a token or a column to one dtype.\<close>

datatype 'a conv = Converted 'a | NotThisType | Overflow

text \<open>
  An optional sign in front of the text: \<open>(negative, rest)\<close>.
\<close>

definition take_sign :: "string \<Rightarrow> bool \<times> string" where
  "take_sign p = (case p of
       [] \<Rightarrow> (False, [])
     | c # r \<Rightarrow> if c = CHR ''-'' then (True, r) else if c = CHR ''+'' then (False, r) else (False, p))"

text \<open>
  \<^verbatim>\<open>str_to_int64\<close>: leading white space, an optional sign, at least one digit, trailing
  white space, and nothing else. The range is checked while the digits are read, before
  the rest of the text is looked at.
\<close>

definition INT64_MIN :: int where "INT64_MIN = - (2 ^ 63)"
definition INT64_MAX :: int where "INT64_MAX = 2 ^ 63 - 1"
definition UINT64_MAX :: int where "UINT64_MAX = 2 ^ 64 - 1"

definition str_to_int64 :: "string \<Rightarrow> int conv" where
  "str_to_int64 w =
     (let (neg, q) = take_sign (dropWhile is_space w);
          ds = takeWhile is_digit q;
          rest = dropWhile is_space (dropWhile is_digit q);
          i = (if neg then - int (digits_val ds) else int (digits_val ds))
      in if ds = [] then NotThisType
         else if i < INT64_MIN \<or> INT64_MAX < i then Overflow
         else if rest \<noteq> [] then NotThisType
         else Converted i)"

text \<open>
  \<^verbatim>\<open>str_to_uint64\<close>: a text that starts with a minus sign is accepted at once and only
  remembered (\<open>None\<close>); otherwise as above with the unsigned range.
\<close>

definition str_to_uint64 :: "string \<Rightarrow> int option conv" where
  "str_to_uint64 w =
     (let p = dropWhile is_space w;
          (neg, q) = take_sign p;
          ds = takeWhile is_digit q;
          rest = dropWhile is_space (dropWhile is_digit q);
          i = int (digits_val ds)
      in if neg then Converted None
         else if ds = [] then NotThisType
         else if UINT64_MAX < i then Overflow
         else if rest \<noteq> [] then NotThisType
         else Converted (Some i))"

text \<open>Values of a float64 cell.\<close>

datatype fval = Fin real | PosInf | NegInf | NaN

text \<open>
  The float converter: white space, sign, digits with an optional decimal point (at least
  one digit in all), an optional exponent \<^verbatim>\<open>e\<close>/\<^verbatim>\<open>E\<close> with optional sign and at least
  one digit, white space, end of text. An exponent mark without digits is not consumed.
\<close>

definition take_exponent :: "string \<Rightarrow> int \<times> string" where
  "take_exponent p = (case p of
       [] \<Rightarrow> (0, [])
     | c # r \<Rightarrow>
         if to_upper c = CHR ''E'' then
           (let (neg, q) = take_sign r; ds = takeWhile is_digit q
            in if ds = [] then (0, p)
               else ((if neg then - int (digits_val ds) else int (digits_val ds)),
                     dropWhile is_digit q))
         else (0, p))"

definition pow10 :: "int \<Rightarrow> real" where
  "pow10 e = (if 0 \<le> e then 10 ^ nat e else 1 / 10 ^ nat (- e))"

definition xstrtod :: "string \<Rightarrow> real option" where
  "xstrtod w =
     (let (neg, q) = take_sign (dropWhile is_space w);
          ip = takeWhile is_digit q;
          q1 = dropWhile is_digit q;
          (fp, q2) = (case q1 of
                        [] \<Rightarrow> ([], [])
                      | c # r \<Rightarrow> if c = CHR ''.'' then (takeWhile is_digit r, dropWhile is_digit r)
                                else ([], q1));
          (e, q3) = take_exponent q2;
          rest = dropWhile is_space q3;
          m = real (digits_val (ip @ fp)) * pow10 (e - int (length fp))
      in if ip @ fp = [] then None
         else if rest \<noteq> [] then None
         else Some (if neg then - m else m))"

text \<open>
  \<^verbatim>\<open>_try_double\<close>: the converter first, then the spellings of infinity, compared without
  regard to case.
\<close>

definition to_double :: "string \<Rightarrow> fval option" where
  "to_double w =
     (case xstrtod w of
        Some x \<Rightarrow> Some (Fin x)
      | None \<Rightarrow>
          if strcaseeq w ''inf'' \<or> strcaseeq w ''+inf'' \<or> strcaseeq w ''Infinity''
             \<or> strcaseeq w ''+Infinity'' then Some PosInf
          else if strcaseeq w ''-inf'' \<or> strcaseeq w ''-Infinity'' then Some NegInf
          else None)"

text \<open>\<^verbatim>\<open>to_boolean\<close>: \<^verbatim>\<open>TRUE\<close> or \<^verbatim>\<open>FALSE\<close> in any case.\<close>

definition to_boolean :: "string \<Rightarrow> bool option" where
  "to_boolean w = (if strcaseeq w ''TRUE'' then Some True
                   else if strcaseeq w ''FALSE'' then Some False else None)"

subsection \<open>Converting a column\<close>

text \<open>
  The values of a loaded frame. A missing value is \<open>DFloat NaN\<close> in every kind of column.
\<close>

datatype dval = DInt int | DFloat fval | DBool bool | DStr string

text \<open>
  Each pass reads the cells in order and gives up at the first cell it cannot convert.
  A missing-value marker is accepted by every pass (\<open>None\<close>).
\<close>

fun try_int64 :: "string list \<Rightarrow> int option list conv" where
  "try_int64 [] = Converted []"
| "try_int64 (w # ws) =
     (if is_na w then (case try_int64 ws of Converted r \<Rightarrow> Converted (None # r) | e \<Rightarrow> e)
      else case str_to_int64 w of
             Converted i \<Rightarrow> (case try_int64 ws of Converted r \<Rightarrow> Converted (Some i # r) | e \<Rightarrow> e)
           | NotThisType \<Rightarrow> NotThisType
           | Overflow \<Rightarrow> Overflow)"

datatype ucell = UNull | USigned | UVal int

fun try_uint64 :: "string list \<Rightarrow> ucell list conv" where
  "try_uint64 [] = Converted []"
| "try_uint64 (w # ws) =
     (if is_na w then (case try_uint64 ws of Converted r \<Rightarrow> Converted (UNull # r) | e \<Rightarrow> e)
      else case str_to_uint64 w of
             Converted None \<Rightarrow>
               (case try_uint64 ws of Converted r \<Rightarrow> Converted (USigned # r) | e \<Rightarrow> e)
           | Converted (Some i) \<Rightarrow>
               (case try_uint64 ws of Converted r \<Rightarrow> Converted (UVal i # r) | e \<Rightarrow> e)
           | NotThisType \<Rightarrow> NotThisType
           | Overflow \<Rightarrow> Overflow)"

fun try_double :: "string list \<Rightarrow> fval list option" where
  "try_double [] = Some []"
| "try_double (w # ws) =
     (if is_na w then map_option (Cons NaN) (try_double ws)
      else case to_double w of
             Some x \<Rightarrow> map_option (Cons x) (try_double ws)
           | None \<Rightarrow> None)"

fun try_bool :: "string list \<Rightarrow> bool option list option" where
  "try_bool [] = Some []"
| "try_bool (w # ws) =
     (if is_na w then map_option (Cons None) (try_bool ws)
      else case to_boolean w of
             Some b \<Rightarrow> map_option (Cons (Some b)) (try_bool ws)
           | None \<Rightarrow> None)"

text \<open>The object pass keeps the text; with the filter on, a marker becomes a missing value.\<close>

definition object_column :: "bool \<Rightarrow> string list \<Rightarrow> dval list" where
  "object_column na_filter ws = map (\<lambda>w. if na_filter \<and> is_na w then DFloat NaN else DStr w) ws"

text \<open>
  An integer column with missing values is cast to float64; the cast takes
  \<open>INT64_MIN\<close>, the filler of a missing cell, for missing.
\<close>

fun int_cell :: "int option \<Rightarrow> dval" where
  "int_cell (Some i) = DInt i"
| "int_cell None = DFloat NaN"

fun upcast_int :: "int option \<Rightarrow> dval" where
  "upcast_int (Some i) = (if i = INT64_MIN then DFloat NaN else DFloat (Fin (real_of_int i)))"
| "upcast_int None = DFloat NaN"

fun bool_cell :: "bool option \<Rightarrow> dval" where
  "bool_cell (Some b) = DBool b"
| "bool_cell None = DFloat NaN"

fun uint_cell :: "ucell \<Rightarrow> dval" where
  "uint_cell (UVal i) = DInt i"
| "uint_cell _ = DInt 0"

definition seen_uint :: "ucell list \<Rightarrow> bool" where
  "seen_uint us \<longleftrightarrow> list_ex (\<lambda>u. case u of UVal i \<Rightarrow> INT64_MAX < i | _ \<Rightarrow> False) us"

definition float_bool_object :: "string list \<Rightarrow> dval list" where
  "float_bool_object ws =
     (case try_double ws of
        Some xs \<Rightarrow> map DFloat xs
      | None \<Rightarrow>
          (case try_bool ws of
             Some bs \<Rightarrow> map bool_cell bs
           | None \<Rightarrow> object_column True ws))"

text \<open>
  The cast order is int64, float64, bool, object. An overflow in the int64 pass leads to
  the uint64 pass; when that one meets a sign or a missing value next to a value above
  \<open>INT64_MAX\<close> the column is kept as text without the missing-value filter, and when it
  overflows or meets a sign the column is kept as text.
\<close>

definition convert_column :: "string list \<Rightarrow> dval list" where
  "convert_column ws =
     (case try_int64 ws of
        Converted xs \<Rightarrow> if None \<in> set xs then map upcast_int xs else map int_cell xs
      | NotThisType \<Rightarrow> float_bool_object ws
      | Overflow \<Rightarrow>
          (case try_uint64 ws of
             Converted us \<Rightarrow>
               if seen_uint us \<and> (USigned \<in> set us \<or> UNull \<in> set us) then object_column False ws
               else if USigned \<in> set us then object_column True ws
               else map uint_cell us
           | NotThisType \<Rightarrow> float_bool_object ws
           | Overflow \<Rightarrow> object_column True ws))"

subsection \<open>Files and frames\<close>

text \<open>
  A CSV file is kept as its rows of cell texts: the writer's quoting and the reader's
  unquoting of delimiters, quotes and line breaks inside a cell are not modelled. A row
  without cells stands for an empty line. The file system maps a path to the file there;
  the folder \<^verbatim>\<open>data\<close> is made when the module is loaded, and I/O failures are not modelled.
\<close>

type_synonym csv_file = "string list list"
type_synonym filesystem = "string \<rightharpoonup> csv_file"

definition DATA_FOLDER :: string where "DATA_FOLDER = ''data''"

definition path_join :: "string \<Rightarrow> string \<Rightarrow> string" where
  "path_join d f = d @ ''/'' @ f"

definition CONSENT_CSV :: string where "CONSENT_CSV = path_join DATA_FOLDER ''consent_data.csv''"
definition DEMOGRAPHIC_CSV :: string where
  "DEMOGRAPHIC_CSV = path_join DATA_FOLDER ''demographic_data.csv''"
definition TASK_CSV :: string where "TASK_CSV = path_join DATA_FOLDER ''task_data.csv''"
definition EXIT_CSV :: string where "EXIT_CSV = path_join DATA_FOLDER ''exit_data.csv''"

record dataframe =
  df_columns :: "string list"
  df_rows :: "dval list list"

text \<open>\<^verbatim>\<open>pd.DataFrame()\<close> and \<^verbatim>\<open>df.empty\<close>.\<close>

definition DataFrame_empty :: dataframe where
  "DataFrame_empty = \<lparr>df_columns = [], df_rows = []\<rparr>"

definition df_empty :: "dataframe \<Rightarrow> bool" where
  "df_empty df \<longleftrightarrow> df_columns df = [] \<or> df_rows df = []"

datatype error = EmptyDataError | ParserError | KeyError | TypeError

text \<open>A header cell without text is named after its position.\<close>

definition header_name :: "nat \<Rightarrow> string \<Rightarrow> string" where
  "header_name j c = (if c = [] then ''Unnamed: '' @ str_nat j else c)"

text \<open>
  The tokenizer skips blank lines (\<^verbatim>\<open>skip_blank_lines\<close> is on by default): a line
  without cells, and a line that holds nothing but spaces and tabs. The writer puts
  quotes around a lone empty cell, so that line is not blank. A written line of spaces
  and tabs has one cell, since it has no delimiter.
\<close>

definition is_blank_char :: "char \<Rightarrow> bool" where
  "is_blank_char c \<longleftrightarrow> c = CHR '' '' \<or> c = CHR 0x09"

definition blank_line :: "string list \<Rightarrow> bool" where
  "blank_line r = (case r of
       [] \<Rightarrow> True
     | c # cs \<Rightarrow> cs = [] \<and> c \<noteq> [] \<and> list_all is_blank_char c)"

text \<open>
  The tokenizer also drops a byte order mark at the very start of the file. Whether a file
  starts with one depends on the writer's quoting of the first header cell, so this is not
  modelled; the round trip below is stated for headers that do not begin with the mark.
\<close>

definition BOM :: string where
  "BOM = [CHR 0xEF, CHR 0xBB, CHR 0xBF]"

definition bom_first :: "string list \<Rightarrow> bool" where
  "bom_first header = (case header of [] \<Rightarrow> False | c # _ \<Rightarrow> take 3 c = BOM)"

text \<open>The tokenizer's words are C strings: a word ends at its first NUL character.\<close>

definition c_str :: "string \<Rightarrow> string" where
  "c_str s = takeWhile (\<lambda>c. c \<noteq> CHR 0x00) s"

definition tokenize :: "csv_file \<Rightarrow> csv_file" where
  "tokenize file = map (map c_str) (filter (\<lambda>r. \<not> blank_line r) file)"

text \<open>
  The frame of the tokenized lines. The first line is the header. The first data row
  fixes the width of the table when it is longer than the header, and its surplus
  leading cells, like those of every later row, are row labels, which the program never
  reads and the frame here leaves out. A later row that is longer than the table raises;
  a shorter row is filled with empty cells. Each column is converted on its own. Pandas
  renames a header name that occurs twice; a dict has no key twice, and the renaming is
  not modelled.
\<close>

definition frame_of_tokens :: "csv_file \<Rightarrow> error + dataframe" where
  "frame_of_tokens toks =
     (case toks of
        [] \<Rightarrow> Inl EmptyDataError
      | header # body \<Rightarrow>
          (let h = length header;
               w = (case body of [] \<Rightarrow> h | r # _ \<Rightarrow> max h (length r))
           in if list_ex (\<lambda>r. w < length r) body then Inl ParserError
              else
                (let cells = map (\<lambda>r. drop (w - h) (r @ replicate (w - length r) [])) body;
                     cols = map (\<lambda>j. convert_column (map (\<lambda>r. r ! j) cells)) [0..<h]
                 in Inr \<lparr>df_columns = map (\<lambda>j. header_name j (header ! j)) [0..<h],
                         df_rows = map (\<lambda>i. map (\<lambda>c. c ! i) cols) [0..<length body]\<rparr>)))"

text \<open>\<^verbatim>\<open>pd.read_csv(csv_file)\<close> with default arguments.\<close>

definition read_csv :: "csv_file \<Rightarrow> error + dataframe" where
  "read_csv file = frame_of_tokens (tokenize file)"

subsection \<open>The two utilities\<close>

text \<open>
  The text \<^verbatim>\<open>to_csv\<close> writes for a value. The decimal text of a float is not modelled:
  \<open>float_repr\<close> stands for it and is a parameter of everything that writes.
\<close>

fun cell_text :: "(real \<Rightarrow> string) \<Rightarrow> pyval \<Rightarrow> string" where
  "cell_text float_repr (PyBool b) = (if b then ''True'' else ''False'')"
| "cell_text float_repr (PyInt i) = str_int i"
| "cell_text float_repr (PyFloat x) = float_repr x"
| "cell_text float_repr (PyStr s) = s"

text \<open>
  \<^verbatim>\<open>save_to_csv(data_dict, csv_file)\<close>: the one-row frame of the dict is written with its
  header when there is no file, and appended without header otherwise.
\<close>

definition save_to_csv :: "(real \<Rightarrow> string) \<Rightarrow> data_dict \<Rightarrow> string \<Rightarrow> filesystem \<Rightarrow> filesystem" where
  "save_to_csv float_repr data_dict csv_file fs =
     (let header = map fst data_dict;
          row = map (cell_text float_repr \<circ> snd) data_dict
      in case fs csv_file of
           None \<Rightarrow> fs(csv_file \<mapsto> [header, row])
         | Some old \<Rightarrow> fs(csv_file \<mapsto> old @ [row]))"

text \<open>\<^verbatim>\<open>load_from_csv(csv_file)\<close>.\<close>

definition load_from_csv :: "filesystem \<Rightarrow> string \<Rightarrow> error + dataframe" where
  "load_from_csv fs csv_file =
     (case fs csv_file of
        Some file \<Rightarrow> read_csv file
      | None \<Rightarrow> Inr DataFrame_empty)"

subsection \<open>The session and the handlers of \<^verbatim>\<open>main\<close>\<close>

text \<open>
  Streamlit runs the script again on every interaction; what a button or a form does
  when it is pressed is one function here. The clock (\<^verbatim>\<open>time.time()\<close>), the formatted
  time (\<^verbatim>\<open>time.strftime\<close>) and the widget values are arguments.
  \<^verbatim>\<open>st.session_state\<close> holds the keys \<^verbatim>\<open>start_time\<close> and \<^verbatim>\<open>task_duration\<close>.
\<close>

type_synonym session_state = "string \<rightharpoonup> real"

datatype notice = Warning string | Success string

text \<open>Button \<^verbatim>\<open>Submit Consent\<close>.\<close>

definition submit_consent ::
  "(real \<Rightarrow> string) \<Rightarrow> string \<Rightarrow> bool \<Rightarrow> filesystem \<Rightarrow> filesystem \<times> notice" where
  "submit_consent float_repr timestamp consent_given fs =
     (if \<not> consent_given
      then (fs, Warning ''You must agree to the consent terms before proceeding.'')
      else (save_to_csv float_repr
              [(''timestamp'', PyStr timestamp), (''consent_given'', PyBool consent_given)]
              CONSENT_CSV fs,
            Success ''Consent recorded.''))"

text \<open>Form \<^verbatim>\<open>demographic_form\<close>.\<close>

definition submit_demographics ::
  "(real \<Rightarrow> string) \<Rightarrow> string \<Rightarrow> string \<Rightarrow> int \<Rightarrow> string \<Rightarrow> string \<Rightarrow> filesystem
     \<Rightarrow> filesystem \<times> notice" where
  "submit_demographics float_repr timestamp name age occupation familiarity fs =
     (save_to_csv float_repr
        [(''timestamp'', PyStr timestamp), (''name'', PyStr name), (''age'', PyInt age),
         (''occupation'', PyStr occupation), (''familiarity'', PyStr familiarity)]
        DEMOGRAPHIC_CSV fs,
      Success ''Demographic data saved.'')"

text \<open>Button \<^verbatim>\<open>Start Task Timer\<close>.\<close>

definition start_task_timer :: "real \<Rightarrow> session_state \<Rightarrow> session_state" where
  "start_task_timer now ss = ss(''start_time'' \<mapsto> now)"

text \<open>
  Button \<^verbatim>\<open>Stop Task Timer\<close>; the second component is the duration that is reported
  to the user, if any.
\<close>

definition stop_task_timer :: "real \<Rightarrow> session_state \<Rightarrow> session_state \<times> real option" where
  "stop_task_timer now ss =
     (case ss ''start_time'' of
        Some start_time \<Rightarrow>
          (let duration = now - start_time
           in (ss(''task_duration'' \<mapsto> duration), Some duration))
      | None \<Rightarrow> (ss, None))"

text \<open>
  \<^verbatim>\<open>duration_val if duration_val else ""\<close>: \<open>None\<close> and the float zero are false.
\<close>

definition duration_seconds_field :: "real option \<Rightarrow> pyval" where
  "duration_seconds_field duration_val =
     (case duration_val of
        Some d \<Rightarrow> if d \<noteq> 0 then PyFloat d else PyStr ''''
      | None \<Rightarrow> PyStr '''')"

text \<open>Button \<^verbatim>\<open>Save Task Results\<close>.\<close>

definition task_record :: "string \<Rightarrow> string \<Rightarrow> string \<Rightarrow> real option \<Rightarrow> string \<Rightarrow> data_dict" where
  "task_record timestamp selected_task success duration_val notes =
     [(''timestamp'', PyStr timestamp), (''task_name'', PyStr selected_task),
      (''success'', PyStr success),
      (''duration_seconds'', duration_seconds_field duration_val),
      (''notes'', PyStr notes)]"

definition save_task_results ::
  "(real \<Rightarrow> string) \<Rightarrow> string \<Rightarrow> string \<Rightarrow> string \<Rightarrow> string \<Rightarrow> session_state \<Rightarrow> filesystem
     \<Rightarrow> session_state \<times> filesystem" where
  "save_task_results float_repr timestamp selected_task success notes ss fs =
     (let duration_val = ss ''task_duration'';
          fs' = save_to_csv float_repr
                  (task_record timestamp selected_task success duration_val notes) TASK_CSV fs
      in (ss(''start_time'' := None, ''task_duration'' := None), fs'))"

text \<open>
  \<^verbatim>\<open>st.slider(label, 1, 5)\<close> gives an integer between its two bounds; this is what the
  widget promises about the values the exit form receives.
\<close>

definition slider_value :: "int \<Rightarrow> int \<Rightarrow> int \<Rightarrow> bool" where
  "slider_value min_value max_value v \<longleftrightarrow> min_value \<le> v \<and> v \<le> max_value"

text \<open>Form \<^verbatim>\<open>exit_form\<close>.\<close>

definition exit_record :: "string \<Rightarrow> int \<Rightarrow> int \<Rightarrow> string \<Rightarrow> data_dict" where
  "exit_record timestamp satisfaction difficulty open_feedback =
     [(''timestamp'', PyStr timestamp), (''satisfaction'', PyInt satisfaction),
      (''difficulty'', PyInt difficulty), (''open_feedback'', PyStr open_feedback)]"

definition submit_exit ::
  "(real \<Rightarrow> string) \<Rightarrow> string \<Rightarrow> int \<Rightarrow> int \<Rightarrow> string \<Rightarrow> filesystem \<Rightarrow> filesystem \<times> notice" where
  "submit_exit float_repr timestamp satisfaction difficulty open_feedback fs =
     (save_to_csv float_repr (exit_record timestamp satisfaction difficulty open_feedback)
        EXIT_CSV fs,
      Success ''Exit questionnaire data saved.'')"

subsection \<open>The report's exit section\<close>

text \<open>\<^verbatim>\<open>df[name]\<close>: the column of that name.\<close>

fun find_column :: "string \<Rightarrow> string list \<Rightarrow> nat option" where
  "find_column k [] = None"
| "find_column k (c # cs) = (if c = k then Some 0 else map_option Suc (find_column k cs))"

definition getitem :: "dataframe \<Rightarrow> string \<Rightarrow> error + dval list" where
  "getitem df k =
     (case find_column k (df_columns df) of
        None \<Rightarrow> Inl KeyError
      | Some j \<Rightarrow> Inr (map (\<lambda>r. r ! j) (df_rows df)))"

text \<open>
  \<^verbatim>\<open>Series.mean()\<close>: missing values are skipped; a column that holds text raises.
\<close>

fun as_float :: "dval \<Rightarrow> fval option" where
  "as_float (DInt i) = Some (Fin (real_of_int i))"
| "as_float (DFloat x) = Some x"
| "as_float (DBool b) = Some (Fin (if b then 1 else 0))"
| "as_float (DStr s) = None"

fun fin_value :: "fval \<Rightarrow> real" where
  "fin_value (Fin x) = x"
| "fin_value _ = 0"

definition mean :: "dval list \<Rightarrow> error + fval" where
  "mean xs =
     (if list_ex (\<lambda>x. as_float x = None) xs then Inl TypeError
      else
        (let vs = filter (\<lambda>v. v \<noteq> NaN) (List.map_filter as_float xs)
         in if vs = [] then Inr NaN
            else if PosInf \<in> set vs \<and> NegInf \<in> set vs then Inr NaN
            else if PosInf \<in> set vs then Inr PosInf
            else if NegInf \<in> set vs then Inr NegInf
            else Inr (Fin (sum_list (map fin_value vs) / real (length vs)))))"

text \<open>
  The exit part of the report tab: the table that is shown (\<open>None\<close> for the note that
  there is no data yet) and the two averages (\<open>None\<close> when the section is left out).
\<close>

definition report_exit :: "filesystem \<Rightarrow> error + dataframe option \<times> (fval \<times> fval) option" where
  "report_exit fs =
     (case load_from_csv fs EXIT_CSV of
        Inl e \<Rightarrow> Inl e
      | Inr exit_df \<Rightarrow>
          if \<not> df_empty exit_df then
            (case getitem exit_df ''satisfaction'' of
               Inl e \<Rightarrow> Inl e
             | Inr sat \<Rightarrow>
                 (case mean sat of
                    Inl e \<Rightarrow> Inl e
                  | Inr avg_satisfaction \<Rightarrow>
                      (case getitem exit_df ''difficulty'' of
                         Inl e \<Rightarrow> Inl e
                       | Inr dif \<Rightarrow>
                           (case mean dif of
                              Inl e \<Rightarrow> Inl e
                            | Inr avg_difficulty \<Rightarrow>
                                Inr (Some exit_df, Some (avg_satisfaction, avg_difficulty))))))
          else Inr (None, None))"

subsection \<open>Values that come back as they were written\<close>







text \<open>
  A text of digits, with or without a minus sign in front.
\<close>

definition int_shaped :: "string \<Rightarrow> bool" where
  "int_shaped w = (case w of
       [] \<Rightarrow> False
     | c # r \<Rightarrow> if c = CHR ''-'' then r \<noteq> [] \<and> list_all is_digit r else list_all is_digit w)"

text \<open>Appending records one after the other, and a run of exit form submissions.\<close>

definition appends :: "(real \<Rightarrow> string) \<Rightarrow> string \<Rightarrow> data_dict list \<Rightarrow> filesystem \<Rightarrow> filesystem" where
  "appends float_repr csv_file recs fs = fold (\<lambda>r. save_to_csv float_repr r csv_file) recs fs"

type_synonym exit_input = "string \<times> int \<times> int \<times> string"

definition exit_submissions :: "(real \<Rightarrow> string) \<Rightarrow> exit_input list \<Rightarrow> filesystem \<Rightarrow> filesystem" where
  "exit_submissions float_repr subs fs =
     fold (\<lambda>(timestamp, satisfaction, difficulty, open_feedback) fs'.
             fst (submit_exit float_repr timestamp satisfaction difficulty open_feedback fs'))
          subs fs"

definition satisfaction_of :: "exit_input \<Rightarrow> int" where
  "satisfaction_of x = fst (snd x)"

definition difficulty_of :: "exit_input \<Rightarrow> int" where
  "difficulty_of x = fst (snd (snd x))"

text \<open>
  Concrete instances below need some text for a float. \<open>repr_whole\<close> is the text Python
  gives a float whose value is a whole number of moderate size (\<^verbatim>\<open>5.0\<close>).
\<close>

definition repr_whole :: "real \<Rightarrow> string" where
  "repr_whole x = str_int \<lfloor>x\<rfloor> @ ''.0''"

section \<open>Properties\<close>

subsection \<open>Paths\<close>

lemma TASK_CSV_eq: "TASK_CSV = ''data/task_data.csv''"
  by (simp add: TASK_CSV_def path_join_def DATA_FOLDER_def)

lemma CONSENT_CSV_eq: "CONSENT_CSV = ''data/consent_data.csv''"
  by (simp add: CONSENT_CSV_def path_join_def DATA_FOLDER_def)

lemma EXIT_CSV_eq: "EXIT_CSV = ''data/exit_data.csv''"
  by (simp add: EXIT_CSV_def path_join_def DATA_FOLDER_def)

subsection \<open>Decimal texts are read back\<close>

lemma is_digit_digit_char: "d < 10 \<Longrightarrow> is_digit (digit_char d)"
  by (simp add: is_digit_def digit_char_def)

lemma digit_val_digit_char: "d < 10 \<Longrightarrow> digit_val (digit_char d) = d"
  by (simp add: digit_val_def digit_char_def)

lemma digits_val_snoc: "digits_val (ds @ [c]) = 10 * digits_val ds + digit_val c"
  by (simp add: digits_val_def)

lemma str_nat_digits: "list_all is_digit (str_nat n)"
proof (induction n rule: str_nat.induct)
  case (1 n)
  show ?case
  proof (cases "n < 10")
    case True
    then show ?thesis by (simp add: str_nat.simps [of n] is_digit_digit_char)
  next
    case False
    with 1 show ?thesis by (simp add: str_nat.simps [of n] is_digit_digit_char)
  qed
qed

lemma str_nat_not_Nil: "str_nat n \<noteq> []"
  by (simp add: str_nat.simps [of n])

lemma digits_val_str_nat: "digits_val (str_nat n) = n"
proof (induction n rule: str_nat.induct)
  case (1 n)
  show ?case
  proof (cases "n < 10")
    case True
    then show ?thesis by (simp add: str_nat.simps [of n] digits_val_def digit_val_digit_char)
  next
    case False
    with 1 show ?thesis
      by (simp add: str_nat.simps [of n] digits_val_snoc digit_val_digit_char)
  qed
qed

lemma is_digit_not_space: "is_digit c \<Longrightarrow> \<not> is_space c"
  by (auto simp: is_digit_def is_space_def)

lemma is_digit_not_sign: "is_digit c \<Longrightarrow> c \<noteq> CHR ''-'' \<and> c \<noteq> CHR ''+''"
  by (auto simp: is_digit_def)

lemma minus_not_space: "\<not> is_space (CHR ''-'')"
  by (simp add: is_space_def)

lemma takeWhile_all: "list_all P xs \<Longrightarrow> takeWhile P xs = xs"
  by (induction xs) auto

lemma dropWhile_all: "list_all P xs \<Longrightarrow> dropWhile P xs = []"
  by (induction xs) auto

lemma str_to_int64_digits:
  assumes "list_all is_digit ds" "ds \<noteq> []" "int (digits_val ds) \<le> INT64_MAX"
  shows "str_to_int64 ds = Converted (int (digits_val ds))"
proof -
  from assms obtain c r where ds: "ds = c # r" and c: "is_digit c"
    by (cases ds) auto
  have 1: "dropWhile is_space ds = ds"
    using c by (simp add: ds is_digit_not_space)
  have 2: "take_sign ds = (False, ds)"
    using is_digit_not_sign [OF c] by (simp add: take_sign_def ds)
  have 3: "\<not> int (digits_val ds) < INT64_MIN"
    by (simp add: INT64_MIN_def)
  have 4: "takeWhile is_digit ds = ds" "dropWhile is_digit ds = []"
    using assms(1) by (simp_all add: takeWhile_all dropWhile_all)
  show ?thesis
    unfolding str_to_int64_def 1 2 using assms(2,3) 3
    by (simp add: 4)
qed

lemma str_to_int64_minus_digits:
  assumes "list_all is_digit ds" "ds \<noteq> []" "INT64_MIN \<le> - int (digits_val ds)"
  shows "str_to_int64 (CHR ''-'' # ds) = Converted (- int (digits_val ds))"
proof -
  have 1: "dropWhile is_space (CHR ''-'' # ds) = CHR ''-'' # ds"
    by (simp add: minus_not_space)
  have 2: "take_sign (CHR ''-'' # ds) = (True, ds)"
    by (simp add: take_sign_def)
  have 3: "\<not> INT64_MAX < - int (digits_val ds)"
    by (simp add: INT64_MAX_def)
  have 4: "takeWhile is_digit ds = ds" "dropWhile is_digit ds = []"
    using assms(1) by (simp_all add: takeWhile_all dropWhile_all)
  show ?thesis
    unfolding str_to_int64_def 1 2 using assms(2,3) 3
    by (simp add: 4)
qed

lemma str_to_int64_str_int:
  assumes "INT64_MIN \<le> i" "i \<le> INT64_MAX"
  shows "str_to_int64 (str_int i) = Converted i"
proof (cases "i < 0")
  case True
  then show ?thesis
    using assms str_to_int64_minus_digits [of "str_nat (nat (- i))"]
    by (simp add: str_int_def str_nat_digits str_nat_not_Nil digits_val_str_nat)
next
  case False
  then show ?thesis
    using assms str_to_int64_digits [of "str_nat (nat i)"]
    by (simp add: str_int_def str_nat_digits str_nat_not_Nil digits_val_str_nat)
qed

subsection \<open>Columns that are read back as written\<close>

lemma na_not_int_shaped: "list_all (\<lambda>w. \<not> int_shaped w) STR_NA_VALUES"
  by code_simp

lemma int_shaped_str_int: "int_shaped (str_int i)"
proof (cases "i < 0")
  case True
  then show ?thesis
    by (simp add: int_shaped_def str_int_def str_nat_not_Nil str_nat_digits)
next
  case False
  obtain c r where cr: "str_nat (nat i) = c # r"
    using str_nat_not_Nil [of "nat i"] by (cases "str_nat (nat i)") auto
  have d: "list_all is_digit (c # r)"
    using str_nat_digits [of "nat i"] by (simp add: cr)
  then have "c \<noteq> CHR ''-''" using is_digit_not_sign [of c] by simp
  with False d show ?thesis
    by (simp add: int_shaped_def str_int_def cr)
qed

lemma not_is_na_str_int: "\<not> is_na (str_int i)"
  using na_not_int_shaped int_shaped_str_int [of i]
  by (auto simp: is_na_def list_all_iff)

lemma try_int64_str_int:
  "list_all (\<lambda>i. INT64_MIN \<le> i \<and> i \<le> INT64_MAX) xs
     \<Longrightarrow> try_int64 (map str_int xs) = Converted (map Some xs)"
  by (induction xs) (simp_all add: not_is_na_str_int str_to_int64_str_int)

lemma convert_column_ints:
  assumes "list_all (\<lambda>i. INT64_MIN \<le> i \<and> i \<le> INT64_MAX) xs"
  shows "convert_column (map str_int xs) = map DInt xs"
proof -
  have "None \<notin> set (map Some xs)" by auto
  then show ?thesis
    using try_int64_str_int [OF assms]
    by (simp add: convert_column_def o_def del: set_map)
qed











subsection \<open>The file after a run of appends, and its frame\<close>

lemma appends_existing:
  "fs csv_file = Some old \<Longrightarrow>
     appends fr csv_file recs fs csv_file
       = Some (old @ map (\<lambda>r. map (cell_text fr \<circ> snd) r) recs)"
proof (induction recs arbitrary: fs old)
  case Nil
  then show ?case by (simp add: appends_def)
next
  case (Cons r recs)
  have "save_to_csv fr r csv_file fs csv_file = Some (old @ [map (cell_text fr \<circ> snd) r])"
    using Cons.prems by (simp add: save_to_csv_def)
  from Cons.IH [of "save_to_csv fr r csv_file fs" "old @ [map (cell_text fr \<circ> snd) r]"] this
  show ?case by (simp add: appends_def)
qed

lemma appends_fresh:
  assumes "fs csv_file = None"
  shows "appends fr csv_file (r # recs) fs csv_file
           = Some (map fst r # map (\<lambda>r. map (cell_text fr \<circ> snd) r) (r # recs))"
proof -
  have "save_to_csv fr r csv_file fs csv_file = Some [map fst r, map (cell_text fr \<circ> snd) r]"
    using assms by (simp add: save_to_csv_def)
  from appends_existing [of "save_to_csv fr r csv_file fs" csv_file
                            "[map fst r, map (cell_text fr \<circ> snd) r]" fr recs] this
  show ?thesis by (simp add: appends_def)
qed

lemma frame_rect:
  assumes "\<forall>r\<in>set body. length r = length header"
  shows "frame_of_tokens (header # body)
     = Inr \<lparr>df_columns = map (\<lambda>j. header_name j (header ! j)) [0..<length header],
            df_rows = map (\<lambda>i. map (\<lambda>j. convert_column (map (\<lambda>r. r ! j) body) ! i)
                                   [0..<length header])
                          [0..<length body]\<rparr>"
proof -
  have w: "(case body of [] \<Rightarrow> length header | r # _ \<Rightarrow> max (length header) (length r))
             = length header"
    using assms by (cases body) auto
  have nx: "\<not> list_ex (\<lambda>r. length header < length r) body"
    using assms by (auto simp: list_ex_iff)
  have c: "\<And>j. map (\<lambda>r. (r @ replicate (length header - length r) []) ! j) body
                = map (\<lambda>r. r ! j) body"
    by (rule map_cong) (simp_all add: assms)
  show ?thesis
    unfolding frame_of_tokens_def
    by (simp add: w nx c Let_def o_def)
qed

lemma tokenize_no_blank:
  assumes "\<forall>r\<in>set file. \<not> blank_line r"
  shows "tokenize file = map (map c_str) file"
proof -
  have "filter (\<lambda>r. \<not> blank_line r) file = file"
    using assms by (simp add: filter_id_conv)
  then show ?thesis by (simp add: tokenize_def)
qed

lemma read_csv_rect:
  assumes "\<not> blank_line header" "\<forall>r\<in>set body. \<not> blank_line r"
    and "\<forall>r\<in>set body. length r = length header"
  shows "read_csv (header # body)
     = Inr \<lparr>df_columns = map (\<lambda>j. header_name j (c_str (header ! j))) [0..<length header],
            df_rows = map (\<lambda>i. map (\<lambda>j. convert_column (map (\<lambda>r. c_str (r ! j)) body) ! i)
                                   [0..<length header])
                          [0..<length body]\<rparr>"
proof -
  have t: "tokenize (header # body) = map c_str header # map (map c_str) body"
    using tokenize_no_blank [of "header # body"] assms(1,2) by simp
  have rect: "\<forall>r\<in>set (map (map c_str) body). length r = length (map c_str header)"
    using assms(3) by simp
  have col: "\<And>j. j < length header \<Longrightarrow>
      map (\<lambda>r. r ! j) (map (map c_str) body) = map (\<lambda>r. c_str (r ! j)) body"
  proof -
    fix j assume j: "j < length header"
    have "map (\<lambda>r. r ! j) (map (map c_str) body) = map (\<lambda>r. map c_str r ! j) body"
      by (simp add: o_def)
    also have "\<dots> = map (\<lambda>r. c_str (r ! j)) body"
      using assms(3) j by (intro map_cong) auto
    finally show "map (\<lambda>r. r ! j) (map (map c_str) body) = map (\<lambda>r. c_str (r ! j)) body" .
  qed
  have names: "map (\<lambda>j. header_name j (map c_str header ! j)) [0..<length (map c_str header)]
                 = map (\<lambda>j. header_name j (c_str (header ! j))) [0..<length header]"
    by (simp cong: map_cong)
  have rows: "map (\<lambda>i. map (\<lambda>j. convert_column (map (\<lambda>r. r ! j) (map (map c_str) body)) ! i)
                            [0..<length (map c_str header)])
                  [0..<length (map (map c_str) body)]
              = map (\<lambda>i. map (\<lambda>j. convert_column (map (\<lambda>r. c_str (r ! j)) body) ! i)
                              [0..<length header])
                    [0..<length body]"
    using col by (simp cong: map_cong)
  show ?thesis
    unfolding read_csv_def t
    using frame_rect [OF rect] names rows by simp
qed

lemma c_str_id: "CHR 0x00 \<notin> set s \<Longrightarrow> c_str s = s"
  by (auto simp: c_str_def takeWhile_eq_all_conv)

lemma is_digit_not_nul: "is_digit c \<Longrightarrow> c \<noteq> CHR 0x00"
  by (auto simp: is_digit_def)

lemma c_str_str_int: "c_str (str_int i) = str_int i"
proof -
  have "\<And>n. CHR 0x00 \<notin> set (str_nat n)"
    using str_nat_digits is_digit_not_nul by (fastforce simp: list_all_iff)
  then have "CHR 0x00 \<notin> set (str_int i)" by (simp add: str_int_def)
  then show ?thesis by (rule c_str_id)
qed


lemma header_names_id:
  assumes "\<forall>k\<in>set ks. k \<noteq> [] \<and> CHR 0x00 \<notin> set k"
  shows "map (\<lambda>j. header_name j (c_str (ks ! j))) [0..<length ks] = ks"
proof -
  have "map (\<lambda>j. header_name j (c_str (ks ! j))) [0..<length ks]
          = map (\<lambda>j. ks ! j) [0..<length ks]"
  proof (rule map_cong)
    fix j assume "j \<in> set [0..<length ks]"
    then have "ks ! j \<in> set ks" by simp
    with assms have "ks ! j \<noteq> []" "CHR 0x00 \<notin> set (ks ! j)" by blast+
    then show "header_name j (c_str (ks ! j)) = ks ! j"
      by (simp add: header_name_def c_str_id)
  qed simp
  then show ?thesis by (simp add: map_nth)
qed

lemma load_appends_fresh:
  assumes "fs csv_file = None" "\<not> blank_line ks" "\<forall>r\<in>set (r0 # recs). map fst r = ks"
    and "\<forall>r\<in>set (r0 # recs). \<not> blank_line (map (cell_text fr \<circ> snd) r)"
  shows "load_from_csv (appends fr csv_file (r0 # recs) fs) csv_file
     = Inr \<lparr>df_columns = map (\<lambda>j. header_name j (c_str (ks ! j))) [0..<length ks],
            df_rows = map (\<lambda>i. map (\<lambda>j. convert_column
                                           (map (\<lambda>r. c_str (cell_text fr (snd (r ! j))))
                                                (r0 # recs)) ! i)
                                   [0..<length ks])
                          [0..<Suc (length recs)]\<rparr>"
proof -
  let ?row = "\<lambda>r. map (cell_text fr \<circ> snd) r"
  let ?body = "map ?row (r0 # recs)"
  have len: "\<forall>r\<in>set (r0 # recs). length r = length ks"
  proof
    fix r assume "r \<in> set (r0 # recs)"
    with assms(3) have "map fst r = ks" by blast
    then show "length r = length ks" by (metis length_map)
  qed
  have fl: "appends fr csv_file (r0 # recs) fs csv_file = Some (ks # ?body)"
    using appends_fresh [of fs csv_file fr r0 recs] assms(1,3) by simp
  have rect: "\<forall>r\<in>set ?body. length r = length ks"
    using len by auto
  have nb: "\<forall>r\<in>set ?body. \<not> blank_line r"
    using assms(4) by auto
  have col: "\<And>j. j < length ks \<Longrightarrow>
      map (\<lambda>r. c_str (r ! j)) ?body = map (\<lambda>r. c_str (cell_text fr (snd (r ! j)))) (r0 # recs)"
  proof -
    fix j assume j: "j < length ks"
    have "map (\<lambda>r. c_str (r ! j)) ?body = map (\<lambda>r. c_str (?row r ! j)) (r0 # recs)"
      by (simp add: o_def)
    also have "\<dots> = map (\<lambda>r. c_str (cell_text fr (snd (r ! j)))) (r0 # recs)"
      using len j by (intro map_cong) auto
    finally show "map (\<lambda>r. c_str (r ! j)) ?body
        = map (\<lambda>r. c_str (cell_text fr (snd (r ! j)))) (r0 # recs)" .
  qed
  have rows: "map (\<lambda>i. map (\<lambda>j. convert_column (map (\<lambda>r. c_str (r ! j)) ?body) ! i)
                            [0..<length ks])
                  [0..<length ?body]
              = map (\<lambda>i. map (\<lambda>j. convert_column
                                    (map (\<lambda>r. c_str (cell_text fr (snd (r ! j)))) (r0 # recs)) ! i)
                              [0..<length ks])
                    [0..<Suc (length recs)]"
    using col by (simp cong: map_cong)
  show ?thesis
    unfolding load_from_csv_def fl
    using read_csv_rect [OF assms(2) nb rect] rows by simp
qed

subsection \<open>The exit file after a run of submissions, and its report\<close>

lemma exit_submissions_appends:
  "exit_submissions fr subs fs
     = appends fr EXIT_CSV
         (map (\<lambda>x. exit_record (fst x) (satisfaction_of x) (difficulty_of x) (snd (snd (snd x))))
              subs) fs"
  by (induction subs arbitrary: fs)
     (auto simp: exit_submissions_def appends_def submit_exit_def satisfaction_of_def
        difficulty_of_def)

lemma map_filter_as_float_ints:
  "List.map_filter as_float (map DInt xs) = map (\<lambda>i. Fin (real_of_int i)) xs"
  by (induction xs) (simp_all add: List.map_filter_simps)

lemma sum_fin_values: "sum_list (map (fin_value \<circ> (\<lambda>i. Fin (real_of_int i))) xs)
                        = real_of_int (sum_list xs)"
  by (induction xs) simp_all

lemma mean_ints:
  assumes "xs \<noteq> []"
  shows "mean (map DInt xs) = Inr (Fin (real_of_int (sum_list xs) / real (length xs)))"
proof -
  let ?vs = "map (\<lambda>i. Fin (real_of_int i)) xs"
  have a: "\<not> list_ex (\<lambda>x. as_float x = None) (map DInt xs)"
    by (simp add: list_ex_iff)
  have f: "filter (\<lambda>v. v \<noteq> NaN) ?vs = ?vs"
    by (induction xs) simp_all
  have p: "PosInf \<notin> set ?vs" "NegInf \<notin> set ?vs" by auto
  have n: "?vs \<noteq> []" using assms by simp
  show ?thesis
    unfolding mean_def map_filter_as_float_ints f Let_def
    using a p n by (simp add: sum_fin_values del: set_map)
qed

lemma load_appends_fresh_frame:
  assumes "fs csv_file = None" and "\<not> blank_line ks" and "recs \<noteq> []"
    and "\<forall>r\<in>set recs. map fst r = ks"
    and "\<forall>r\<in>set recs. \<not> blank_line (map (cell_text fr \<circ> snd) r)"
  shows "load_from_csv (appends fr csv_file recs fs) csv_file
     = Inr \<lparr>df_columns = map (\<lambda>j. header_name j (c_str (ks ! j))) [0..<length ks],
            df_rows = map (\<lambda>i. map (\<lambda>j. convert_column
                                           (map (\<lambda>r. c_str (cell_text fr (snd (r ! j)))) recs) ! i)
                                   [0..<length ks])
                          [0..<length recs]\<rparr>"
proof -
  from assms(3) obtain r0 rs where recs: "recs = r0 # rs" by (cases recs) auto
  show ?thesis
    using load_appends_fresh [of fs csv_file ks r0 rs fr] assms(1,2,4,5)
    by (simp add: recs)
qed

lemma exit_keys:
  "map fst (exit_record ts s d fb) = [''timestamp'', ''satisfaction'', ''difficulty'', ''open_feedback'']"
  by (simp add: exit_record_def)

lemma report_exit_after_submissions:
  assumes "fs EXIT_CSV = None" and "subs \<noteq> []"
    and "\<forall>x\<in>set subs. INT64_MIN \<le> satisfaction_of x \<and> satisfaction_of x \<le> INT64_MAX
                       \<and> INT64_MIN \<le> difficulty_of x \<and> difficulty_of x \<le> INT64_MAX"
  shows "\<exists>df. report_exit (exit_submissions fr subs fs)
           = Inr (Some df,
                  Some (Fin (real_of_int (sum_list (map satisfaction_of subs)) / real (length subs)),
                        Fin (real_of_int (sum_list (map difficulty_of subs)) / real (length subs))))
         \<and> load_from_csv (exit_submissions fr subs fs) EXIT_CSV = Inr df
         \<and> map (\<lambda>r. r ! 1) (df_rows df) = map (DInt \<circ> satisfaction_of) subs
         \<and> map (\<lambda>r. r ! 2) (df_rows df) = map (DInt \<circ> difficulty_of) subs"
proof -
  define ks where "ks = [''timestamp'', ''satisfaction'', ''difficulty'', ''open_feedback'']"
  define recs where
    "recs = map (\<lambda>x. exit_record (fst x) (satisfaction_of x) (difficulty_of x) (snd (snd (snd x))))
                subs"
  define col where
    "col = (\<lambda>j. convert_column (map (\<lambda>r. c_str (cell_text fr (snd (r ! j)))) recs))"
  define df where
    "df = \<lparr>df_columns = ks,
           df_rows = map (\<lambda>i. map (\<lambda>j. col j ! i) [0..<length ks]) [0..<length recs]\<rparr>"
  have lk: "length ks = 4" by (simp add: ks_def)
  have lr: "length recs = length subs" by (simp add: recs_def)
  have rne: "recs \<noteq> []" using assms(2) by (simp add: recs_def)
  have kne: "\<not> blank_line ks" by (simp add: ks_def blank_line_def)
  have nb: "\<forall>r\<in>set recs. \<not> blank_line (map (cell_text fr \<circ> snd) r)"
    by (auto simp: recs_def exit_record_def blank_line_def)
  have keys: "\<forall>r\<in>set recs. map fst r = ks"
    by (auto simp: recs_def ks_def exit_keys)
  have names: "map (\<lambda>j. header_name j (c_str (ks ! j))) [0..<length ks] = ks"
    by (rule header_names_id) (simp add: ks_def)
  have "load_from_csv (appends fr EXIT_CSV recs fs) EXIT_CSV
     = Inr \<lparr>df_columns = map (\<lambda>j. header_name j (c_str (ks ! j))) [0..<length ks],
            df_rows = map (\<lambda>i. map (\<lambda>j. convert_column
                                           (map (\<lambda>r. c_str (cell_text fr (snd (r ! j)))) recs) ! i)
                                   [0..<length ks])
                          [0..<length recs]\<rparr>"
    using assms(1) kne rne keys nb by (rule load_appends_fresh_frame)
  then have ld: "load_from_csv (exit_submissions fr subs fs) EXIT_CSV = Inr df"
    unfolding exit_submissions_appends recs_def [symmetric]
    by (simp only: names df_def col_def)
  have r1: "list_all (\<lambda>i. INT64_MIN \<le> i \<and> i \<le> INT64_MAX) (map satisfaction_of subs)"
    using assms(3) by (simp add: list_all_iff)
  have r2: "list_all (\<lambda>i. INT64_MIN \<le> i \<and> i \<le> INT64_MAX) (map difficulty_of subs)"
    using assms(3) by (simp add: list_all_iff)
  have t1: "map (\<lambda>r. c_str (cell_text fr (snd (r ! 1)))) recs
              = map str_int (map satisfaction_of subs)"
    by (simp add: recs_def exit_record_def o_def c_str_str_int)
  have t2: "map (\<lambda>r. c_str (cell_text fr (snd (r ! 2)))) recs
              = map str_int (map difficulty_of subs)"
    by (simp add: recs_def exit_record_def o_def c_str_str_int)
  have c1: "col 1 = map DInt (map satisfaction_of subs)"
    unfolding col_def t1 by (rule convert_column_ints [OF r1])
  have c2: "col 2 = map DInt (map difficulty_of subs)"
    unfolding col_def t2 by (rule convert_column_ints [OF r2])
  have g: "\<And>j. j < 4 \<Longrightarrow> length (col j) = length subs
              \<Longrightarrow> map (\<lambda>r. r ! j) (df_rows df) = col j"
  proof -
    fix j :: nat assume j: "j < 4" and l: "length (col j) = length subs"
    have "map (\<lambda>r. r ! j) (df_rows df) = map (\<lambda>i. col j ! i) [0..<length recs]"
      using j by (simp add: df_def lk o_def)
    also have "\<dots> = map (\<lambda>i. col j ! i) [0..<length (col j)]" by (simp add: l lr)
    also have "\<dots> = col j" by (rule map_nth)
    finally show "map (\<lambda>r. r ! j) (df_rows df) = col j" .
  qed
  have g1: "map (\<lambda>r. r ! 1) (df_rows df) = map (DInt \<circ> satisfaction_of) subs"
  proof -
    have l: "length (col 1) = length subs" unfolding c1 by simp
    have "map (\<lambda>r. r ! 1) (df_rows df) = col 1" by (rule g) (simp, rule l)
    then show ?thesis unfolding c1 by simp
  qed
  have g2: "map (\<lambda>r. r ! 2) (df_rows df) = map (DInt \<circ> difficulty_of) subs"
  proof -
    have l: "length (col 2) = length subs" unfolding c2 by simp
    have "map (\<lambda>r. r ! 2) (df_rows df) = col 2" by (rule g) (simp, rule l)
    then show ?thesis unfolding c2 by simp
  qed
  have ne: "\<not> df_empty df" using assms(2) by (simp add: df_empty_def df_def ks_def lr)
  have cols: "df_columns df = [''timestamp'', ''satisfaction'', ''difficulty'', ''open_feedback'']"
    by (simp add: df_def ks_def)
  have gi1: "getitem df ''satisfaction'' = Inr (map (DInt \<circ> satisfaction_of) subs)"
    unfolding getitem_def cols using g1 by simp
  have f2: "find_column ''difficulty''
              [''timestamp'', ''satisfaction'', ''difficulty'', ''open_feedback''] = Some 2"
    by simp
  have gi2: "getitem df ''difficulty'' = Inr (map (DInt \<circ> difficulty_of) subs)"
    unfolding getitem_def cols f2 using g2 by simp
  have m1: "mean (map (DInt \<circ> satisfaction_of) subs)
              = Inr (Fin (real_of_int (sum_list (map satisfaction_of subs)) / real (length subs)))"
    using mean_ints [of "map satisfaction_of subs"] assms(2) by simp
  have m2: "mean (map (DInt \<circ> difficulty_of) subs)
              = Inr (Fin (real_of_int (sum_list (map difficulty_of subs)) / real (length subs)))"
    using mean_ints [of "map difficulty_of subs"] assms(2) by simp
  have rep: "report_exit (exit_submissions fr subs fs)
           = Inr (Some df,
                  Some (Fin (real_of_int (sum_list (map satisfaction_of subs)) / real (length subs)),
                        Fin (real_of_int (sum_list (map difficulty_of subs)) / real (length subs))))"
    unfolding report_exit_def ld using ne by (simp add: gi1 gi2 m1 m2)
  from rep ld g1 g2 show ?thesis by blast
qed

lemma sum_list_bounds:
  "\<forall>x\<in>set xs. lo \<le> x \<and> x \<le> hi \<Longrightarrow>
     lo * int (length xs) \<le> sum_list xs \<and> sum_list xs \<le> hi * int (length xs)"
  by (induction xs) (auto simp: algebra_simps)

lemma mean_bounds:
  assumes "xs \<noteq> []" "\<forall>x\<in>set xs. (1::int) \<le> x \<and> x \<le> 5"
  shows "1 \<le> real_of_int (sum_list xs) / real (length xs)
       \<and> real_of_int (sum_list xs) / real (length xs) \<le> 5"
proof -
  have n: "0 < real (length xs)" using assms(1) by simp
  from sum_list_bounds [OF assms(2)]
  have "int (length xs) \<le> sum_list xs" "sum_list xs \<le> 5 * int (length xs)" by simp_all
  then have "real (length xs) \<le> real_of_int (sum_list xs)"
       "real_of_int (sum_list xs) \<le> 5 * real (length xs)"
    by linarith+
  with n show ?thesis by (simp add: le_divide_eq divide_le_eq)
qed

lemma exit_file_after_submissions:
  assumes "fs EXIT_CSV = None" and "subs \<noteq> []"
  shows "exit_submissions fr subs fs EXIT_CSV
     = Some ([''timestamp'', ''satisfaction'', ''difficulty'', ''open_feedback'']
             # map (\<lambda>x. [fst x, str_int (satisfaction_of x), str_int (difficulty_of x),
                         snd (snd (snd x))]) subs)"
proof -
  from assms(2) obtain x0 xs where subs: "subs = x0 # xs" by (cases subs) auto
  show ?thesis
    unfolding exit_submissions_appends subs
    using appends_fresh [of fs EXIT_CSV fr] assms(1)
    by (simp add: exit_record_def)
qed

lemma report_exit_no_file: "fs EXIT_CSV = None \<Longrightarrow> report_exit fs = Inr (None, None)"
  by (simp add: report_exit_def load_from_csv_def DataFrame_empty_def df_empty_def)

lemma report_exit_header_only:
  assumes "fs EXIT_CSV = Some [header]" "\<not> blank_line header"
  shows "report_exit fs = Inr (None, None)"
proof -
  have "read_csv [header]
     = Inr \<lparr>df_columns = map (\<lambda>j. header_name j (c_str (header ! j))) [0..<length header],
            df_rows = map (\<lambda>i. map (\<lambda>j. convert_column (map (\<lambda>r. c_str (r ! j)) []) ! i)
                                   [0..<length header]) [0..<length ([] :: string list list)]\<rparr>"
    by (rule read_csv_rect) (simp_all add: assms(2))
  then show ?thesis
    using assms(1) by (simp add: report_exit_def load_from_csv_def df_empty_def)
qed

subsection \<open>The record store\<close>

text \<open>
  Claim C2. When there is no file at the path, \<open>save_to_csv\<close> creates it with the
  record's field names as header row and its values as the one data row. When there is a
  file, it adds the record's values as a new last row, whatever the record's field names
  are: the header already in the file is not compared with them.
\<close>

theorem save_to_csv_create_or_append:
  "(fs csv_file = None \<longrightarrow>
      save_to_csv float_repr data_dict csv_file fs
        = fs(csv_file \<mapsto> [map fst data_dict, map (cell_text float_repr \<circ> snd) data_dict]))
   \<and> (\<forall>old. fs csv_file = Some old \<longrightarrow>
      save_to_csv float_repr data_dict csv_file fs
        = fs(csv_file \<mapsto> old @ [map (cell_text float_repr \<circ> snd) data_dict]))"
  by (simp add: save_to_csv_def)

text \<open>
  An instance: a first record creates the file, and a second record with another field
  set is appended under the old header.
\<close>

theorem save_to_csv_create_or_append_witness:
  "save_to_csv repr_whole [(''a'', PyInt 1), (''b'', PyStr ''x'')] ''f.csv'' Map.empty
     = [''f.csv'' \<mapsto> [[''a'', ''b''], [''1'', ''x'']]]
   \<and> save_to_csv repr_whole [(''c'', PyBool True)] ''f.csv''
        [''f.csv'' \<mapsto> [[''a'', ''b''], [''1'', ''x'']]]
     = [''f.csv'' \<mapsto> [[''a'', ''b''], [''1'', ''x''], [''True'']]]"
proof -
  have s1: "str_int 1 = ''1''" by code_simp
  have e: "(Map.empty :: filesystem) ''f.csv'' = None" by simp
  have f: "([''f.csv'' \<mapsto> [[''a'', ''b''], [''1'', ''x'']]] :: filesystem) ''f.csv''
             = Some [[''a'', ''b''], [''1'', ''x'']]" by simp
  from save_to_csv_create_or_append
         [of Map.empty "''f.csv''" repr_whole "[(''a'', PyInt 1), (''b'', PyStr ''x'')]"] e
  have a: "save_to_csv repr_whole [(''a'', PyInt 1), (''b'', PyStr ''x'')] ''f.csv'' Map.empty
     = [''f.csv'' \<mapsto> [[''a'', ''b''], [''1'', ''x'']]]"
    by (simp add: s1)
  from save_to_csv_create_or_append
         [of "[''f.csv'' \<mapsto> [[''a'', ''b''], [''1'', ''x'']]]" "''f.csv''" repr_whole
             "[(''c'', PyBool True)]"] f
  have b: "save_to_csv repr_whole [(''c'', PyBool True)] ''f.csv''
        [''f.csv'' \<mapsto> [[''a'', ''b''], [''1'', ''x'']]]
     = [''f.csv'' \<mapsto> [[''a'', ''b''], [''1'', ''x''], [''True'']]]"
    by simp
  from a b show ?thesis by simp
qed




text \<open>
  Claim C7. Loading a path at which there is no file gives the empty frame, not an error.
\<close>

theorem load_missing_file_empty:
  "fs csv_file = None \<Longrightarrow>
     load_from_csv fs csv_file = Inr DataFrame_empty \<and> df_empty DataFrame_empty
     \<and> df_rows DataFrame_empty = []"
  by (simp add: load_from_csv_def DataFrame_empty_def df_empty_def)

text \<open>An instance: the exit file in a file system without files.\<close>

theorem load_missing_file_empty_witness:
  "(Map.empty :: filesystem) EXIT_CSV = None
   \<and> load_from_csv Map.empty EXIT_CSV = Inr DataFrame_empty \<and> df_empty DataFrame_empty
   \<and> df_rows DataFrame_empty = []"
  using load_missing_file_empty [of Map.empty EXIT_CSV] by simp

subsection \<open>The task timer\<close>

text \<open>
  Claim C3, amended. Stopping while \<^verbatim>\<open>start_time\<close> is set computes the elapsed time
  \<open>now - start_time\<close>, stores it as \<^verbatim>\<open>task_duration\<close> and reports it; \<^verbatim>\<open>start_time\<close>
  stays set, so the timer is still running afterwards. Stopping while \<^verbatim>\<open>start_time\<close> is
  not set changes nothing and reports no duration.
\<close>

theorem stop_task_timer_effect:
  "(\<forall>t. ss ''start_time'' = Some t \<longrightarrow>
      stop_task_timer now ss = (ss(''task_duration'' \<mapsto> now - t), Some (now - t))
      \<and> fst (stop_task_timer now ss) ''start_time'' = Some t)
   \<and> (ss ''start_time'' = None \<longrightarrow> stop_task_timer now ss = (ss, None))"
  by (simp add: stop_task_timer_def Let_def)

text \<open>An instance of each case.\<close>

theorem stop_task_timer_effect_witness:
  "stop_task_timer 15 [''start_time'' \<mapsto> 10]
     = ([''start_time'' \<mapsto> 10, ''task_duration'' \<mapsto> 5], Some 5)
   \<and> stop_task_timer 15 Map.empty = (Map.empty, None)"
proof -
  have a: "([''start_time'' \<mapsto> 10] :: session_state) ''start_time'' = Some 10" by simp
  have b: "(Map.empty :: session_state) ''start_time'' = None" by simp
  from stop_task_timer_effect [of "[''start_time'' \<mapsto> 10]" 15] a
  have "stop_task_timer 15 [''start_time'' \<mapsto> 10]
     = ([''start_time'' \<mapsto> 10, ''task_duration'' \<mapsto> 5], Some 5)" by simp
  moreover from stop_task_timer_effect [of Map.empty 15] b
  have "stop_task_timer 15 Map.empty = (Map.empty, None)" by simp
  ultimately show ?thesis by simp
qed

text \<open>
  Claim C3 as it is written fails: after a stop at clock 15 of a timer started at clock
  10, \<^verbatim>\<open>start_time\<close> is still set.
\<close>

theorem stop_keeps_start_time_counterexample:
  "fst (stop_task_timer 15 [''start_time'' \<mapsto> 10]) ''start_time'' = Some 10
   \<and> fst (stop_task_timer 15 [''start_time'' \<mapsto> 10]) ''start_time'' \<noteq> None"
  by (simp add: stop_task_timer_def)

text \<open>
  Claim C8, amended. A start at clock reading \<open>t1\<close> followed by a stop at clock reading
  \<open>t2\<close> gives the elapsed time \<open>t2 - t1\<close>; it is not negative when the reading at the stop
  is not below the reading at the start, and negative otherwise.
\<close>

theorem elapsed_is_clock_difference:
  "snd (stop_task_timer t2 (start_task_timer t1 ss)) = Some (t2 - t1)
   \<and> fst (stop_task_timer t2 (start_task_timer t1 ss)) ''task_duration'' = Some (t2 - t1)
   \<and> (t1 \<le> t2 \<longrightarrow> 0 \<le> t2 - t1) \<and> (t2 < t1 \<longrightarrow> t2 - t1 < 0)"
  by (simp add: stop_task_timer_def start_task_timer_def Let_def)

text \<open>An instance: start at 10, stop at 12.\<close>

theorem elapsed_is_clock_difference_witness:
  "snd (stop_task_timer 12 (start_task_timer 10 Map.empty)) = Some 2 \<and> (0::real) \<le> 2"
  using elapsed_is_clock_difference [of 12 10 Map.empty] by simp

text \<open>
  Claim C8 as it is written fails: the clock is \<^verbatim>\<open>time.time()\<close>, which may be set back
  between the two readings; a start at 100 and a stop at 40 give \<open>- 60\<close>.
\<close>

theorem elapsed_negative_counterexample:
  "snd (stop_task_timer 40 (start_task_timer 100 Map.empty)) = Some (- 60)
   \<and> (- 60 :: real) < 0"
  by (simp add: stop_task_timer_def start_task_timer_def)

subsection \<open>Saving the task results\<close>

text \<open>
  Claim C9. When the recorded duration is the float zero, or when none is recorded, the
  field \<^verbatim>\<open>duration_seconds\<close> of the record that is saved is the empty string and not the
  number, and the row written to the task file has an empty cell there.
\<close>

theorem zero_duration_saved_as_placeholder:
  assumes "ss ''task_duration'' = None \<or> ss ''task_duration'' = Some 0"
  shows "duration_seconds_field (ss ''task_duration'') = PyStr ''''
     \<and> duration_seconds_field (ss ''task_duration'') \<noteq> PyFloat 0
     \<and> snd (save_task_results float_repr timestamp selected_task success notes ss fs) TASK_CSV
         = (case fs TASK_CSV of
              None \<Rightarrow> Some [[''timestamp'', ''task_name'', ''success'', ''duration_seconds'', ''notes''],
                            [timestamp, selected_task, success, '''', notes]]
            | Some old \<Rightarrow> Some (old @ [[timestamp, selected_task, success, '''', notes]]))"
  using assms
  by (auto simp: save_task_results_def task_record_def duration_seconds_field_def
        save_to_csv_def Let_def split: option.splits)

text \<open>An instance: a recorded duration of zero, no task file yet.\<close>

theorem zero_duration_saved_as_placeholder_witness:
  "([''task_duration'' \<mapsto> 0] :: session_state) ''task_duration'' = Some 0
   \<and> snd (save_task_results repr_whole ''2024-05-01 10:00:00'' ''Task 1: Example Task'' ''Yes''
            ''fine'' [''task_duration'' \<mapsto> 0] Map.empty) TASK_CSV
       = Some [[''timestamp'', ''task_name'', ''success'', ''duration_seconds'', ''notes''],
               [''2024-05-01 10:00:00'', ''Task 1: Example Task'', ''Yes'', '''', ''fine'']]"
proof -
  have h: "([''task_duration'' \<mapsto> 0] :: session_state) ''task_duration'' = None
           \<or> ([''task_duration'' \<mapsto> 0] :: session_state) ''task_duration'' = Some 0"
    by simp
  from zero_duration_saved_as_placeholder
         [of "[''task_duration'' \<mapsto> 0]" repr_whole "''2024-05-01 10:00:00''"
            "''Task 1: Example Task''" "''Yes''" "''fine''" Map.empty] h
  show ?thesis by simp
qed

text \<open>
  What saving the task results does to the record and to the session, for every session:
  the record goes to the task file, and afterwards neither \<^verbatim>\<open>start_time\<close> nor
  \<^verbatim>\<open>task_duration\<close> is set, while no other key has changed.
\<close>

lemma save_task_results_effect:
  "snd (save_task_results float_repr timestamp selected_task success notes ss fs)
       = save_to_csv float_repr
           [(''timestamp'', PyStr timestamp), (''task_name'', PyStr selected_task),
            (''success'', PyStr success),
            (''duration_seconds'', duration_seconds_field (ss ''task_duration'')),
            (''notes'', PyStr notes)] TASK_CSV fs
   \<and> fst (save_task_results float_repr timestamp selected_task success notes ss fs) ''start_time''
       = None
   \<and> fst (save_task_results float_repr timestamp selected_task success notes ss fs)
         ''task_duration'' = None
   \<and> (\<forall>k. k \<noteq> ''start_time'' \<and> k \<noteq> ''task_duration'' \<longrightarrow>
         fst (save_task_results float_repr timestamp selected_task success notes ss fs) k = ss k)"
  by (simp add: save_task_results_def task_record_def Let_def)

text \<open>
  Claim C4, the code at the input where it departs from the claim. A timer started and
  stopped at the same clock reading records the duration zero, and the stop handler
  reports it as a recorded duration. The recorded duration is then present in the
  session, but saving the task results puts the empty string into the record and into
  the row of the task file, not the recorded zero.
\<close>

theorem zero_duration_lost_on_save:
  "stop_task_timer 10 (start_task_timer 10 Map.empty)
     = ([''start_time'' \<mapsto> 10, ''task_duration'' \<mapsto> 0], Some 0)
   \<and> ([''start_time'' \<mapsto> 10, ''task_duration'' \<mapsto> 0] :: session_state) ''task_duration'' = Some 0
   \<and> duration_seconds_field
        (([''start_time'' \<mapsto> 10, ''task_duration'' \<mapsto> 0] :: session_state) ''task_duration'')
       = PyStr ''''
   \<and> duration_seconds_field
        (([''start_time'' \<mapsto> 10, ''task_duration'' \<mapsto> 0] :: session_state) ''task_duration'')
       \<noteq> PyFloat 0
   \<and> snd (save_task_results repr_whole ''2024-05-01 10:00:00'' ''Task 1: Example Task'' ''Yes''
            ''fine'' [''start_time'' \<mapsto> 10, ''task_duration'' \<mapsto> 0] Map.empty) TASK_CSV
       = Some [[''timestamp'', ''task_name'', ''success'', ''duration_seconds'', ''notes''],
               [''2024-05-01 10:00:00'', ''Task 1: Example Task'', ''Yes'', '''', ''fine'']]"
  by (simp add: stop_task_timer_def start_task_timer_def save_task_results_def task_record_def
        duration_seconds_field_def save_to_csv_def Let_def)

subsection \<open>The consent stage\<close>

text \<open>
  Claim C6. A consent submission without the box ticked leaves every file as it was and
  answers with the warning that asks again. A submission with the box ticked saves one
  record, with the fields \<^verbatim>\<open>timestamp\<close> and \<^verbatim>\<open>consent_given = True\<close>, to the consent file:
  the file gains exactly that one row (after the header, when the file is new), and no
  other file changes.
\<close>

theorem submit_consent_persists_iff_affirmed:
  "(\<not> consent_given \<longrightarrow>
      submit_consent float_repr timestamp consent_given fs
        = (fs, Warning ''You must agree to the consent terms before proceeding.''))
   \<and> (consent_given \<longrightarrow>
        snd (submit_consent float_repr timestamp consent_given fs) = Success ''Consent recorded.''
        \<and> fst (submit_consent float_repr timestamp consent_given fs)
            = save_to_csv float_repr
                [(''timestamp'', PyStr timestamp), (''consent_given'', PyBool True)] CONSENT_CSV fs
        \<and> fst (submit_consent float_repr timestamp consent_given fs) CONSENT_CSV
            = (case fs CONSENT_CSV of
                 None \<Rightarrow> Some [[''timestamp'', ''consent_given''], [timestamp, ''True'']]
               | Some old \<Rightarrow> Some (old @ [[timestamp, ''True'']]))
        \<and> (\<forall>p. p \<noteq> CONSENT_CSV \<longrightarrow>
              fst (submit_consent float_repr timestamp consent_given fs) p = fs p))"
  by (simp add: submit_consent_def save_to_csv_def split: option.splits)

text \<open>An instance of each case, on a file system without files.\<close>

theorem submit_consent_persists_iff_affirmed_witness:
  "submit_consent repr_whole ''2024-05-01 10:00:00'' False Map.empty
     = (Map.empty, Warning ''You must agree to the consent terms before proceeding.'')
   \<and> fst (submit_consent repr_whole ''2024-05-01 10:00:00'' True Map.empty) CONSENT_CSV
       = Some [[''timestamp'', ''consent_given''], [''2024-05-01 10:00:00'', ''True'']]"
proof -
  from submit_consent_persists_iff_affirmed
         [of False repr_whole "''2024-05-01 10:00:00''" Map.empty]
  have a: "submit_consent repr_whole ''2024-05-01 10:00:00'' False Map.empty
     = (Map.empty, Warning ''You must agree to the consent terms before proceeding.'')"
    by simp
  from submit_consent_persists_iff_affirmed
         [of True repr_whole "''2024-05-01 10:00:00''" Map.empty]
  have "fst (submit_consent repr_whole ''2024-05-01 10:00:00'' True Map.empty) CONSENT_CSV
       = (case (Map.empty :: filesystem) CONSENT_CSV of
            None \<Rightarrow> Some [[''timestamp'', ''consent_given''], [''2024-05-01 10:00:00'', ''True'']]
          | Some old \<Rightarrow> Some (old @ [[''2024-05-01 10:00:00'', ''True'']]))"
    by blast
  then have b: "fst (submit_consent repr_whole ''2024-05-01 10:00:00'' True Map.empty) CONSENT_CSV
       = Some [[''timestamp'', ''consent_given''], [''2024-05-01 10:00:00'', ''True'']]"
    by simp
  from a b show ?thesis by simp
qed

subsection \<open>The report\<close>

text \<open>
  Claim C5. When there is no exit file, or only a header line (not blank and without a
  byte order mark in front), the report's exit section has
  no averages: they are left out, not zero and not an error. After one or more exit
  submissions to a path without a file, with ratings in the int64 range, the two averages
  are the sums of the satisfaction and of the difficulty ratings divided by the number of
  submissions. For the ratings (3, 2) and (5, 4) they are 4 and 3.
\<close>

theorem exit_averages:
  "(fs EXIT_CSV = None \<longrightarrow> report_exit fs = Inr (None, None))
   \<and> (\<forall>header. fs EXIT_CSV = Some [header] \<and> \<not> blank_line header \<and> \<not> bom_first header
        \<longrightarrow> report_exit fs = Inr (None, None))
   \<and> (fs EXIT_CSV = None \<and> subs \<noteq> []
        \<and> (\<forall>x\<in>set subs. INT64_MIN \<le> satisfaction_of x \<and> satisfaction_of x \<le> INT64_MAX
                         \<and> INT64_MIN \<le> difficulty_of x \<and> difficulty_of x \<le> INT64_MAX)
       \<longrightarrow> (\<exists>df. report_exit (exit_submissions float_repr subs fs)
              = Inr (Some df,
                     Some (Fin (real_of_int (sum_list (map satisfaction_of subs))
                                  / real (length subs)),
                           Fin (real_of_int (sum_list (map difficulty_of subs))
                                  / real (length subs))))))
   \<and> (fs EXIT_CSV = None
       \<longrightarrow> (\<exists>df. report_exit (exit_submissions float_repr
                                  [(ts1, 3, 2, fb1), (ts2, 5, 4, fb2)] fs)
              = Inr (Some df, Some (Fin 4, Fin 3))))"
proof (intro conjI impI allI)
  assume "fs EXIT_CSV = None"
  then show "report_exit fs = Inr (None, None)" by (rule report_exit_no_file)
next
  fix header assume "fs EXIT_CSV = Some [header] \<and> \<not> blank_line header \<and> \<not> bom_first header"
  then show "report_exit fs = Inr (None, None)" using report_exit_header_only by blast
next
  assume a: "fs EXIT_CSV = None \<and> subs \<noteq> []
        \<and> (\<forall>x\<in>set subs. INT64_MIN \<le> satisfaction_of x \<and> satisfaction_of x \<le> INT64_MAX
                         \<and> INT64_MIN \<le> difficulty_of x \<and> difficulty_of x \<le> INT64_MAX)"
  then have "fs EXIT_CSV = None" "subs \<noteq> []"
      "\<forall>x\<in>set subs. INT64_MIN \<le> satisfaction_of x \<and> satisfaction_of x \<le> INT64_MAX
                         \<and> INT64_MIN \<le> difficulty_of x \<and> difficulty_of x \<le> INT64_MAX"
    by blast+
  with report_exit_after_submissions [of fs subs float_repr]
  show "\<exists>df. report_exit (exit_submissions float_repr subs fs)
              = Inr (Some df,
                     Some (Fin (real_of_int (sum_list (map satisfaction_of subs))
                                  / real (length subs)),
                           Fin (real_of_int (sum_list (map difficulty_of subs))
                                  / real (length subs))))"
    by blast
next
  assume f: "fs EXIT_CSV = None"
  let ?subs = "[(ts1, 3, 2, fb1), (ts2, 5, 4, fb2)] :: exit_input list"
  have ne: "?subs \<noteq> []" by simp
  have r: "\<forall>x\<in>set ?subs. INT64_MIN \<le> satisfaction_of x \<and> satisfaction_of x \<le> INT64_MAX
                         \<and> INT64_MIN \<le> difficulty_of x \<and> difficulty_of x \<le> INT64_MAX"
    by (simp add: satisfaction_of_def difficulty_of_def INT64_MIN_def INT64_MAX_def)
  from report_exit_after_submissions [of fs ?subs float_repr] f ne r
  show "\<exists>df. report_exit (exit_submissions float_repr ?subs fs)
              = Inr (Some df, Some (Fin 4, Fin 3))"
    by (auto simp: satisfaction_of_def difficulty_of_def)
qed

text \<open>An instance: no file, and the two submissions of the claim.\<close>

theorem exit_averages_witness:
  "report_exit Map.empty = Inr (None, None)
   \<and> (\<exists>df. report_exit (exit_submissions repr_whole
                [(''2024-05-01 10:00:00'', 3, 2, ''''), (''2024-05-01 11:00:00'', 5, 4, ''ok'')]
                Map.empty)
         = Inr (Some df, Some (Fin 4, Fin 3)))"
proof -
  have e: "(Map.empty :: filesystem) EXIT_CSV = None" by simp
  from exit_averages [of Map.empty "[]" repr_whole "''2024-05-01 10:00:00''" "''''"
                         "''2024-05-01 11:00:00''" "''ok''"] e
  show ?thesis by blast
qed

text \<open>
  Claim C10. When every rating of a run of exit submissions is a value of its slider,
  between 1 and 5, the exit file holds the header and one row per submission with the
  decimal texts of the two ratings, the loaded frame has in every row integers between 1
  and 5 in the satisfaction and difficulty columns, and both averages of the report lie
  between 1 and 5.
\<close>

theorem exit_values_in_slider_range:
  assumes "fs EXIT_CSV = None" and "subs \<noteq> []"
    and "\<forall>x\<in>set subs. slider_value 1 5 (satisfaction_of x) \<and> slider_value 1 5 (difficulty_of x)"
  shows "exit_submissions float_repr subs fs EXIT_CSV
           = Some ([''timestamp'', ''satisfaction'', ''difficulty'', ''open_feedback'']
                   # map (\<lambda>x. [fst x, str_int (satisfaction_of x), str_int (difficulty_of x),
                               snd (snd (snd x))]) subs)
     \<and> (\<exists>df a b. report_exit (exit_submissions float_repr subs fs)
                    = Inr (Some df, Some (Fin a, Fin b))
          \<and> 1 \<le> a \<and> a \<le> 5 \<and> 1 \<le> b \<and> b \<le> 5
          \<and> length (df_rows df) = length subs
          \<and> (\<forall>row\<in>set (df_rows df). \<exists>s d. row ! 1 = DInt s \<and> row ! 2 = DInt d
                 \<and> 1 \<le> s \<and> s \<le> 5 \<and> 1 \<le> d \<and> d \<le> 5))"
proof -
  have sl: "\<forall>x\<in>set subs. 1 \<le> satisfaction_of x \<and> satisfaction_of x \<le> 5
                          \<and> 1 \<le> difficulty_of x \<and> difficulty_of x \<le> 5"
    using assms(3) by (simp add: slider_value_def)
  then have r: "\<forall>x\<in>set subs. INT64_MIN \<le> satisfaction_of x \<and> satisfaction_of x \<le> INT64_MAX
                         \<and> INT64_MIN \<le> difficulty_of x \<and> difficulty_of x \<le> INT64_MAX"
    by (auto simp: INT64_MIN_def INT64_MAX_def)
  from report_exit_after_submissions [of fs subs float_repr] assms(1,2) r
  obtain df where
    rep: "report_exit (exit_submissions float_repr subs fs)
           = Inr (Some df,
                  Some (Fin (real_of_int (sum_list (map satisfaction_of subs)) / real (length subs)),
                        Fin (real_of_int (sum_list (map difficulty_of subs)) / real (length subs))))"
    and c1: "map (\<lambda>r. r ! 1) (df_rows df) = map (DInt \<circ> satisfaction_of) subs"
    and c2: "map (\<lambda>r. r ! 2) (df_rows df) = map (DInt \<circ> difficulty_of) subs"
    by blast
  have len: "length (df_rows df) = length subs"
    using c1 by (metis length_map)
  have m1: "1 \<le> real_of_int (sum_list (map satisfaction_of subs)) / real (length subs)
          \<and> real_of_int (sum_list (map satisfaction_of subs)) / real (length subs) \<le> 5"
    using mean_bounds [of "map satisfaction_of subs"] assms(2) sl by simp
  have m2: "1 \<le> real_of_int (sum_list (map difficulty_of subs)) / real (length subs)
          \<and> real_of_int (sum_list (map difficulty_of subs)) / real (length subs) \<le> 5"
    using mean_bounds [of "map difficulty_of subs"] assms(2) sl by simp
  have rows: "\<forall>row\<in>set (df_rows df). \<exists>s d. row ! 1 = DInt s \<and> row ! 2 = DInt d
                 \<and> 1 \<le> s \<and> s \<le> 5 \<and> 1 \<le> d \<and> d \<le> 5"
  proof
    fix row assume "row \<in> set (df_rows df)"
    then obtain i where i: "i < length (df_rows df)" and row: "row = df_rows df ! i"
      by (auto simp: in_set_conv_nth)
    from i len have isub: "i < length subs" by simp
    have "map (\<lambda>r. r ! 1) (df_rows df) ! i = map (DInt \<circ> satisfaction_of) subs ! i"
      by (simp only: c1)
    with i isub have a: "row ! 1 = DInt (satisfaction_of (subs ! i))" by (simp add: row)
    have "map (\<lambda>r. r ! 2) (df_rows df) ! i = map (DInt \<circ> difficulty_of) subs ! i"
      by (simp only: c2)
    with i isub have b: "row ! 2 = DInt (difficulty_of (subs ! i))" by (simp add: row)
    from isub have "subs ! i \<in> set subs" by simp
    with sl have "1 \<le> satisfaction_of (subs ! i) \<and> satisfaction_of (subs ! i) \<le> 5
                \<and> 1 \<le> difficulty_of (subs ! i) \<and> difficulty_of (subs ! i) \<le> 5"
      by blast
    with a b show "\<exists>s d. row ! 1 = DInt s \<and> row ! 2 = DInt d
                 \<and> 1 \<le> s \<and> s \<le> 5 \<and> 1 \<le> d \<and> d \<le> 5"
      by blast
  qed
  have fl: "exit_submissions float_repr subs fs EXIT_CSV
           = Some ([''timestamp'', ''satisfaction'', ''difficulty'', ''open_feedback'']
                   # map (\<lambda>x. [fst x, str_int (satisfaction_of x), str_int (difficulty_of x),
                               snd (snd (snd x))]) subs)"
    using assms(1,2) by (rule exit_file_after_submissions)
  from fl rep m1 m2 len rows show ?thesis by blast
qed

text \<open>An instance: one submission with the ratings 4 and 1.\<close>

theorem exit_values_in_slider_range_witness:
  "slider_value 1 5 4 \<and> slider_value 1 5 1
   \<and> exit_submissions repr_whole [(''2024-05-01 10:00:00'', 4, 1, ''good'')] Map.empty EXIT_CSV
        = Some [[''timestamp'', ''satisfaction'', ''difficulty'', ''open_feedback''],
                [''2024-05-01 10:00:00'', ''4'', ''1'', ''good'']]
   \<and> (\<exists>df a b. report_exit (exit_submissions repr_whole
                    [(''2024-05-01 10:00:00'', 4, 1, ''good'')] Map.empty)
                    = Inr (Some df, Some (Fin a, Fin b))
          \<and> 1 \<le> a \<and> a \<le> 5 \<and> 1 \<le> b \<and> b \<le> 5)"
proof -
  let ?subs = "[(''2024-05-01 10:00:00'', 4, 1, ''good'')] :: exit_input list"
  have h1: "(Map.empty :: filesystem) EXIT_CSV = None" by simp
  have h2: "?subs \<noteq> []" by simp
  have s: "slider_value 1 5 4 \<and> slider_value 1 5 1" by (simp add: slider_value_def)
  then have h3: "\<forall>x\<in>set ?subs. slider_value 1 5 (satisfaction_of x)
                    \<and> slider_value 1 5 (difficulty_of x)"
    by (simp add: satisfaction_of_def difficulty_of_def)
  have t: "str_int 4 = ''4''" "str_int 1 = ''1''" by code_simp+
  from exit_values_in_slider_range [of Map.empty ?subs repr_whole] h1 h2 h3
  have "exit_submissions repr_whole ?subs Map.empty EXIT_CSV
           = Some ([''timestamp'', ''satisfaction'', ''difficulty'', ''open_feedback'']
                   # map (\<lambda>x. [fst x, str_int (satisfaction_of x), str_int (difficulty_of x),
                               snd (snd (snd x))]) ?subs)"
    and "\<exists>df a b. report_exit (exit_submissions repr_whole ?subs Map.empty)
                    = Inr (Some df, Some (Fin a, Fin b))
          \<and> 1 \<le> a \<and> a \<le> 5 \<and> 1 \<le> b \<and> b \<le> 5"
    by blast+
  with s show ?thesis by (simp add: satisfaction_of_def difficulty_of_def t)
qed

end
